theory Spec2Isabelle
  imports Main "HOL-Library.Sublist" "HOL-Library.Multiset"
begin

section \<open>Python values, errors and objects\<close>

text \<open>
  The attributes of a contact hold either \<^verbatim>\<open>None\<close> or a \<^verbatim>\<open>str\<close>
  (\<^verbatim>\<open>Person.__init__(self, first_name: str, last_name: str, phone=None, address=None)\<close>).
  All four attributes get the same value type here, so that a record read from a file
  may carry \<^verbatim>\<open>null\<close> in any of them.
\<close>

datatype pyval = PNone | PStr string

text \<open>\<^verbatim>\<open>str(v)\<close>, which is what \<^verbatim>\<open>'{}'.format(v)\<close> renders.\<close>

fun py_str :: "pyval \<Rightarrow> string" where
  "py_str PNone = ''None''"
| "py_str (PStr s) = s"

text \<open>
  The exceptions the library code can raise: \<^verbatim>\<open>ValueError\<close> (\<^verbatim>\<open>list.remove\<close> and the
  \<^verbatim>\<open>else\<close> branch of \<^verbatim>\<open>update_contact\<close>), \<^verbatim>\<open>KeyError\<close> with the missing key
  (\<^verbatim>\<open>data["first_name"]\<close>), \<^verbatim>\<open>UnboundLocalError\<close> with the variable read before
  assignment, and \<^verbatim>\<open>DecodeError\<close> for whatever the \<^verbatim>\<open>json\<close> and \<^verbatim>\<open>yaml\<close> parsers raise on
  text they cannot read.
\<close>

datatype error = ValueError | KeyError string | UnboundLocalError string | DecodeError

text \<open>
  \<^verbatim>\<open>class Person\<close>: five attributes; \<^verbatim>\<open>full_name\<close> is stored, not recomputed.
\<close>

record person =
  first_name :: pyval
  last_name :: pyval
  phone :: pyval
  address :: pyval
  full_name :: string

text \<open>
  \<^verbatim>\<open>Person\<close> defines no \<^verbatim>\<open>__eq__\<close>, so \<^verbatim>\<open>==\<close> on contacts is object identity. Objects
  therefore live in a store and the phonebook holds references; \<open>next_ref\<close> is the next
  unused reference.
\<close>

type_synonym ref = nat

record store =
  objs :: "ref \<Rightarrow> person"
  next_ref :: ref

text \<open>The body of \<^verbatim>\<open>Person.__init__\<close> (person.py, lines 46 to 50).\<close>

definition Person_init :: "pyval \<Rightarrow> pyval \<Rightarrow> pyval \<Rightarrow> pyval \<Rightarrow> person" where
  "Person_init fn ln ph ad =
     \<lparr>first_name = fn, last_name = ln, phone = ph, address = ad,
      full_name = py_str fn @ '' '' @ py_str ln\<rparr>"

text \<open>\<^verbatim>\<open>Person(first_name, last_name, phone, address)\<close>: a new object in the store.\<close>

definition new_Person :: "store \<Rightarrow> pyval \<Rightarrow> pyval \<Rightarrow> pyval \<Rightarrow> pyval \<Rightarrow> ref \<times> store" where
  "new_Person st fn ln ph ad =
     (next_ref st,
      st\<lparr>objs := (objs st)(next_ref st := Person_init fn ln ph ad),
         next_ref := Suc (next_ref st)\<rparr>)"

text \<open>
  A record read from a file: a dictionary from attribute names to values.
  \<^verbatim>\<open>data.get(k)\<close> is \<^verbatim>\<open>None\<close> for a missing key.
\<close>

type_synonym pydict = "string \<rightharpoonup> pyval"

definition dict_get :: "pydict \<Rightarrow> string \<Rightarrow> pyval" where
  "dict_get data k = (case data k of None \<Rightarrow> PNone | Some v \<Rightarrow> v)"

text \<open>
  \<^verbatim>\<open>Person.from_dict\<close> (person.py, lines 63 to 68). The arguments are evaluated left to
  right before the object is made, so a missing key raises before anything is allocated.
\<close>

definition from_dict :: "store \<Rightarrow> pydict \<Rightarrow> error + (ref \<times> store)" where
  "from_dict st data =
     (case data ''first_name'' of
        None \<Rightarrow> Inl (KeyError ''first_name'')
      | Some fn \<Rightarrow>
          (case data ''last_name'' of
             None \<Rightarrow> Inl (KeyError ''last_name'')
           | Some ln \<Rightarrow>
               Inr (new_Person st fn ln (dict_get data ''phone'') (dict_get data ''address''))))"

section \<open>The phonebook\<close>

record phonebook =
  contacts :: "ref list"

definition Phonebook_init :: phonebook where
  "Phonebook_init = \<lparr>contacts = []\<rparr>"

definition add_contact :: "phonebook \<Rightarrow> ref \<Rightarrow> phonebook" where
  "add_contact pb person = pb\<lparr>contacts := contacts pb @ [person]\<rparr>"

text \<open>
  \<^verbatim>\<open>list.remove(x)\<close>: deletes the first item equal to \<open>x\<close>; \<open>None\<close> stands for the
  \<^verbatim>\<open>ValueError\<close> it raises when there is none. On references equality is identity.
\<close>

fun list_remove :: "'a list \<Rightarrow> 'a \<Rightarrow> 'a list option" where
  "list_remove [] x = None"
| "list_remove (y # ys) x =
     (if y = x then Some ys
      else (case list_remove ys x of None \<Rightarrow> None | Some zs \<Rightarrow> Some (y # zs)))"

text \<open>
  Operations that mutate the phonebook return the exception raised, if any, together
  with the phonebook as it is afterwards.
\<close>

definition remove_contact :: "phonebook \<Rightarrow> ref \<Rightarrow> error option \<times> phonebook" where
  "remove_contact pb person =
     (case list_remove (contacts pb) person of
        None \<Rightarrow> (Some ValueError, pb)
      | Some cs \<Rightarrow> (None, pb\<lparr>contacts := cs\<rparr>))"

text \<open>
  The \<^verbatim>\<open>for index, contact in enumerate(self.contacts)\<close> loop of \<^verbatim>\<open>update_contact\<close>
  with its \<^verbatim>\<open>break\<close> and its \<^verbatim>\<open>else\<close> (phonebook.py, lines 105 to 110).
\<close>

fun update_loop :: "store \<Rightarrow> ref \<Rightarrow> ref list \<Rightarrow> (nat \<times> ref) list \<Rightarrow> error option \<times> ref list" where
  "update_loop st person cs [] = (Some ValueError, cs)"
| "update_loop st person cs ((index, contact) # rest) =
     (if full_name (objs st contact) = full_name (objs st person)
      then (None, cs[index := person])
      else update_loop st person cs rest)"

definition update_contact :: "store \<Rightarrow> phonebook \<Rightarrow> ref \<Rightarrow> error option \<times> phonebook" where
  "update_contact st pb person =
     (case update_loop st person (contacts pb) (enumerate 0 (contacts pb)) of
        (e, cs) \<Rightarrow> (e, pb\<lparr>contacts := cs\<rparr>))"

definition get_contacts :: "phonebook \<Rightarrow> ref list" where
  "get_contacts pb = contacts pb"

section \<open>Searching\<close>

text \<open>
  \<^verbatim>\<open>str.lower()\<close> is a built-in of Python, not code of the repository, and it lower-cases
  every cased letter of Unicode: it is the parameter \<open>str_lower\<close> of the model, so that
  nothing below depends on a table of letters. One fact about it is written out:
  the empty string lower-cases to the empty string. A \<open>string\<close> stands for a Python
  \<^verbatim>\<open>str\<close>, held in UTF-8 where it is not ASCII; on such encodings the substring test
  agrees with the one on characters.
\<close>

definition py_lower :: "(string \<Rightarrow> string) \<Rightarrow> string \<Rightarrow> string" where
  "py_lower str_lower s = (if s = [] then [] else str_lower s)"

text \<open>
  One disjunct of the search condition, \<^verbatim>\<open>contact.f and query in contact.f.lower()\<close>:
  \<^verbatim>\<open>None\<close> and the empty string are falsy, and \<^verbatim>\<open>in\<close> on strings is the substring test.
\<close>

fun field_hit :: "(string \<Rightarrow> string) \<Rightarrow> pyval \<Rightarrow> string \<Rightarrow> bool" where
  "field_hit str_lower PNone query = False"
| "field_hit str_lower (PStr s) query = (s \<noteq> [] \<and> sublist query (py_lower str_lower s))"

definition contact_hit :: "(string \<Rightarrow> string) \<Rightarrow> person \<Rightarrow> string \<Rightarrow> bool" where
  "contact_hit str_lower c query =
     (field_hit str_lower (first_name c) query \<or>
      field_hit str_lower (last_name c) query \<or>
      field_hit str_lower (PStr (full_name c)) query \<or>
      field_hit str_lower (phone c) query \<or>
      field_hit str_lower (address c) query)"

text \<open>The loop of \<^verbatim>\<open>search_contacts\<close>, with \<^verbatim>\<open>results\<close> as its accumulator.\<close>

fun search_loop ::
  "(string \<Rightarrow> string) \<Rightarrow> store \<Rightarrow> string \<Rightarrow> ref list \<Rightarrow> ref list \<Rightarrow> ref list" where
  "search_loop str_lower st query [] results = results"
| "search_loop str_lower st query (contact # rest) results =
     search_loop str_lower st query rest
       (if contact_hit str_lower (objs st contact) query then results @ [contact] else results)"

text \<open>
  \<^verbatim>\<open>search_contacts\<close> (phonebook.py, lines 168 to 180): \<^verbatim>\<open>query = query.lower()\<close>, then
  the loop.
\<close>

definition search_contacts ::
  "(string \<Rightarrow> string) \<Rightarrow> store \<Rightarrow> phonebook \<Rightarrow> string \<Rightarrow> ref list" where
  "search_contacts str_lower st pb query =
     search_loop str_lower st (py_lower str_lower query) (contacts pb) []"

section \<open>Saving and loading\<close>

text \<open>
  A Python \<^verbatim>\<open>dict\<close> with string keys keeps insertion order and has each key once:
  assigning to a key that is present replaces its value where it stands.
\<close>

type_synonym 'v odict = "(string \<times> 'v) list"

fun dict_set :: "'v odict \<Rightarrow> string \<Rightarrow> 'v \<Rightarrow> 'v odict" where
  "dict_set [] k v = [(k, v)]"
| "dict_set ((k', v') # d) k v =
     (if k' = k then (k, v) # d else (k', v') # dict_set d k v)"

text \<open>\<^verbatim>\<open>contact.__dict__\<close>: the five attributes by name.\<close>

definition person_dict :: "person \<Rightarrow> pydict" where
  "person_dict p =
     [''first_name'' \<mapsto> first_name p, ''last_name'' \<mapsto> last_name p,
      ''phone'' \<mapsto> phone p, ''address'' \<mapsto> address p,
      ''full_name'' \<mapsto> PStr (full_name p)]"

text \<open>
  \<^verbatim>\<open>{contact.full_name: contact.__dict__ for contact in self.contacts}\<close>
  (phonebook.py, line 129).
\<close>

definition serialize_data :: "store \<Rightarrow> ref list \<Rightarrow> pydict odict" where
  "serialize_data st cs =
     foldl (\<lambda>d contact. dict_set d (full_name (objs st contact)) (person_dict (objs st contact)))
       [] cs"

text \<open>
  The \<^verbatim>\<open>json\<close> and \<^verbatim>\<open>yaml\<close> modules are not part of the repository: the four functions
  the phonebook calls are parameters of the model. A loader returns the parsed top-level
  dictionary or the exception it raised.
\<close>

record codec =
  json_dump :: "pydict odict \<Rightarrow> string"
  json_load :: "string \<Rightarrow> error + pydict odict"
  yaml_dump :: "pydict odict \<Rightarrow> string"
  yaml_safe_load :: "string \<Rightarrow> error + pydict odict"

text \<open>
  \<^verbatim>\<open>save_to_file\<close> (phonebook.py, lines 129 to 136). The result is what the file holds
  afterwards: it is opened with mode \<^verbatim>\<open>'w'\<close>, so it is empty when neither branch writes.
\<close>

definition save_to_file :: "codec \<Rightarrow> store \<Rightarrow> phonebook \<Rightarrow> string \<Rightarrow> error + string" where
  "save_to_file L st pb file_format =
     (let data = serialize_data st (contacts pb) in
      if file_format = ''json'' then Inr (json_dump L data)
      else if file_format = ''yaml'' then Inr (yaml_dump L data)
      else Inr [])"

text \<open>
  The loop \<^verbatim>\<open>for contact_info in data.values()\<close> of \<^verbatim>\<open>load_from_file\<close>. A \<^verbatim>\<open>KeyError\<close> from
  \<^verbatim>\<open>from_dict\<close> leaves the contacts appended so far in place.
\<close>

fun load_loop :: "pydict list \<Rightarrow> store \<times> phonebook \<Rightarrow> error option \<times> (store \<times> phonebook)" where
  "load_loop [] s = (None, s)"
| "load_loop (contact_info # rest) (st, pb) =
     (case from_dict st contact_info of
        Inl e \<Rightarrow> (Some e, (st, pb))
      | Inr (contact, st') \<Rightarrow> load_loop rest (st', pb\<lparr>contacts := contacts pb @ [contact]\<rparr>))"

text \<open>
  \<^verbatim>\<open>load_from_file\<close> (phonebook.py, lines 146 to 155), on the text of the file. With a
  format that is neither \<^verbatim>\<open>'json'\<close> nor \<^verbatim>\<open>'yaml'\<close> the variable \<^verbatim>\<open>data\<close> is never assigned and
  the \<^verbatim>\<open>for\<close> statement raises \<^verbatim>\<open>UnboundLocalError\<close>.
\<close>

definition load_from_file ::
  "codec \<Rightarrow> string \<Rightarrow> string \<Rightarrow> store \<times> phonebook \<Rightarrow> error option \<times> (store \<times> phonebook)" where
  "load_from_file L file_text file_format s =
     (if file_format = ''json'' then
        (case json_load L file_text of
           Inl e \<Rightarrow> (Some e, s)
         | Inr data \<Rightarrow> load_loop (map snd data) s)
      else if file_format = ''yaml'' then
        (case yaml_safe_load L file_text of
           Inl e \<Rightarrow> (Some e, s)
         | Inr data \<Rightarrow> load_loop (map snd data) s)
      else (Some (UnboundLocalError ''data''), s))"

section \<open>Example states\<close>

text \<open>
  A store with nothing allocated, and one in which \<^verbatim>\<open>Person('Sam', 'Lee')\<close> has been
  called twice: references 0 and 1 are two objects with the same attributes.
\<close>

definition empty_store :: store where
  "empty_store = \<lparr>objs = (\<lambda>r. Person_init PNone PNone PNone PNone), next_ref = 0\<rparr>"

definition twin_store :: store where
  "twin_store =
     snd (new_Person (snd (new_Person empty_store (PStr ''Sam'') (PStr ''Lee'') PNone PNone))
       (PStr ''Sam'') (PStr ''Lee'') PNone PNone)"

text \<open>
  \<open>twin_store\<close> with two more objects: \<^verbatim>\<open>Person('Jane', 'Doyle', '555-2222')\<close> at
  reference 2 and a third \<^verbatim>\<open>Person('Sam', 'Lee', '555-0000', '1 Oak St')\<close> at reference 3.
\<close>

definition trio_store :: store where
  "trio_store =
     snd (new_Person
       (snd (new_Person twin_store (PStr ''Jane'') (PStr ''Doyle'') (PStr ''555-2222'') PNone))
       (PStr ''Sam'') (PStr ''Lee'') (PStr ''555-0000'') (PStr ''1 Oak St''))"

text \<open>
  A store holding \<^verbatim>\<open>Person('', '')\<close> at reference 0, whose four attributes are all empty
  or \<^verbatim>\<open>None\<close>, and \<^verbatim>\<open>Person('Jane', 'Smith', '555-1111', '1 Oak St')\<close> at reference 1.
\<close>

definition blank_store :: store where
  "blank_store =
     snd (new_Person (snd (new_Person empty_store (PStr []) (PStr []) PNone PNone))
       (PStr ''Jane'') (PStr ''Smith'') (PStr ''555-1111'') (PStr ''1 Oak St''))"

section \<open>The search condition in the specification's words\<close>

text \<open>
  The specification of \<^verbatim>\<open>search\<close>: a contact matches when the lower-cased query is a
  substring of one of its five fields, lower-cased, and that field is neither absent nor
  empty. This definition follows those words, with the built-in applied to the field as
  it is; \<open>contact_hit\<close> above follows the code.
\<close>

definition field_present :: "pyval \<Rightarrow> bool" where
  "field_present v = (v \<noteq> PNone \<and> v \<noteq> PStr [])"

definition spec_search_match :: "(string \<Rightarrow> string) \<Rightarrow> string \<Rightarrow> person \<Rightarrow> bool" where
  "spec_search_match str_lower q c =
     (\<exists>v\<in>set [first_name c, last_name c, PStr (full_name c), phone c, address c].
        field_present v \<and> sublist (py_lower str_lower q) (str_lower (py_str v)))"

text \<open>
  Two records as a file may hold them: one with both names and a stale \<^verbatim>\<open>full_name\<close>,
  one without \<^verbatim>\<open>last_name\<close>.
\<close>

definition john_record :: pydict where
  "john_record = [''first_name'' \<mapsto> PStr ''John'', ''last_name'' \<mapsto> PStr ''Doe'',
     ''full_name'' \<mapsto> PStr ''Somebody Else'']"

definition nameless_record :: pydict where
  "nameless_record = [''first_name'' \<mapsto> PStr ''John'', ''phone'' \<mapsto> PStr ''123456789'']"

text \<open>
  The contact \<^verbatim>\<open>from_dict\<close> builds from a record that has both names: the four arguments
  it passes to the constructor.
\<close>

definition contact_of_record :: "pydict \<Rightarrow> person" where
  "contact_of_record d =
     Person_init (dict_get d ''first_name'') (dict_get d ''last_name'')
       (dict_get d ''phone'') (dict_get d ''address'')"

text \<open>
  A store holding \<^verbatim>\<open>Person('Zed', 'Young', '555-9999')\<close> at reference 0 and
  \<^verbatim>\<open>Person('Amy', 'Adams', None, '2 Pine St')\<close> at reference 1.
\<close>

definition zed_store :: store where
  "zed_store =
     snd (new_Person
       (snd (new_Person empty_store (PStr ''Zed'') (PStr ''Young'') (PStr ''555-9999'') PNone))
       (PStr ''Amy'') (PStr ''Adams'') PNone (PStr ''2 Pine St''))"

text \<open>
  Three dictionaries as a parser may return them: the one saved from contacts 0 and 1 of
  \<open>zed_store\<close>; one whose only record stores a \<^verbatim>\<open>full_name\<close> that does not fit its names;
  and one whose second record has no \<^verbatim>\<open>last_name\<close>.
\<close>

definition sample_data :: "pydict odict" where
  "sample_data = serialize_data zed_store [0, 1]"

definition stale_data :: "pydict odict" where
  "stale_data = [(''Somebody Else'', john_record)]"

definition partial_data :: "pydict odict" where
  "partial_data = [(''John Doe'', john_record), (''John'', nameless_record)]"

text \<open>
  A stand-in for the two libraries, enough to run the phonebook on. Each dumper writes
  one fixed text. The JSON loader reads that text back as \<open>sample_data\<close>, and two other
  texts as \<open>stale_data\<close> and \<open>partial_data\<close>. The YAML loader reads its text back as
  \<open>sample_data\<close> with \<open>Amy Adams\<close> before \<open>Zed Young\<close>: \<^verbatim>\<open>yaml.dump\<close> writes the keys of a
  mapping in sorted order. Every other text is rejected.
\<close>

definition demo_codec :: codec where
  "demo_codec =
     \<lparr>json_dump = (\<lambda>d. ''json text''),
      json_load = (\<lambda>t.
        if t = ''json text'' then Inr sample_data
        else if t = ''stale json'' then Inr stale_data
        else if t = ''partial json'' then Inr partial_data
        else Inl DecodeError),
      yaml_dump = (\<lambda>d. ''yaml text''),
      yaml_safe_load = (\<lambda>t. if t = ''yaml text'' then Inr (rev sample_data) else Inl DecodeError)\<rparr>"

text \<open>
  The store a new process has after loading \<open>Amy Adams\<close> first and \<open>Zed Young\<close> second.
\<close>

definition amy_first_store :: store where
  "amy_first_store =
     snd (new_Person
       (snd (new_Person empty_store (PStr ''Amy'') (PStr ''Adams'') PNone (PStr ''2 Pine St'')))
       (PStr ''Zed'') (PStr ''Young'') (PStr ''555-9999'') PNone)"

text \<open>The four attributes a round trip is compared on.\<close>

definition contact_fields :: "person \<Rightarrow> pyval \<times> pyval \<times> pyval \<times> pyval" where
  "contact_fields p = (first_name p, last_name p, phone p, address p)"

section \<open>Removal\<close>

lemma list_remove_None: "list_remove xs x = None \<longleftrightarrow> x \<notin> set xs"
  by (induction xs) (auto split: option.splits)

lemma list_remove_Some:
  "x \<in> set xs \<Longrightarrow>
     \<exists>i. i < length xs \<and> xs ! i = x \<and> (\<forall>j<i. xs ! j \<noteq> x) \<and>
         list_remove xs x = Some (take i xs @ drop (Suc i) xs)"
proof (induction xs)
  case Nil
  then show ?case by simp
next
  case (Cons y ys)
  show ?case
  proof (cases "y = x")
    case True
    then have "0 < length (y # ys) \<and> (y # ys) ! 0 = x \<and> (\<forall>j<0. (y # ys) ! j \<noteq> x) \<and>
        list_remove (y # ys) x = Some (take 0 (y # ys) @ drop (Suc 0) (y # ys))"
      by simp
    then show ?thesis by blast
  next
    case False
    with Cons.prems have "x \<in> set ys" by simp
    from Cons.IH [OF this] obtain i where i: "i < length ys" "ys ! i = x"
      "\<forall>j<i. ys ! j \<noteq> x" "list_remove ys x = Some (take i ys @ drop (Suc i) ys)"
      by blast
    have "\<forall>j<Suc i. (y # ys) ! j \<noteq> x"
      using False i(3) by (auto simp: less_Suc_eq_0_disj)
    with i False have "Suc i < length (y # ys) \<and> (y # ys) ! Suc i = x \<and>
        (\<forall>j<Suc i. (y # ys) ! j \<noteq> x) \<and>
        list_remove (y # ys) x = Some (take (Suc i) (y # ys) @ drop (Suc (Suc i)) (y # ys))"
      by simp
    then show ?thesis by blast
  qed
qed

text \<open>
  Claim C1, as the code has it. \<^verbatim>\<open>remove_contact\<close> compares by identity: when the very
  object \<open>person\<close> is in the phonebook, its first occurrence (index \<open>i\<close>, no earlier
  position holds it) is deleted, nothing is raised and the sequence is one shorter;
  when it is not (always so for the empty phonebook), \<^verbatim>\<open>ValueError\<close> is raised and the
  phonebook is as before.
\<close>

theorem remove_contact_identity:
  "(person \<in> set (contacts pb) \<longrightarrow>
      (\<exists>i. i < length (contacts pb) \<and> contacts pb ! i = person \<and>
           (\<forall>j<i. contacts pb ! j \<noteq> person) \<and>
           remove_contact pb person =
             (None, pb\<lparr>contacts := take i (contacts pb) @ drop (Suc i) (contacts pb)\<rparr>) \<and>
           Suc (length (contacts (snd (remove_contact pb person)))) = length (contacts pb))) \<and>
   (person \<notin> set (contacts pb) \<longrightarrow> remove_contact pb person = (Some ValueError, pb))"
proof (intro conjI impI)
  assume "person \<in> set (contacts pb)"
  from list_remove_Some [OF this] obtain i where i: "i < length (contacts pb)"
    "contacts pb ! i = person" "\<forall>j<i. contacts pb ! j \<noteq> person"
    "list_remove (contacts pb) person = Some (take i (contacts pb) @ drop (Suc i) (contacts pb))"
    by blast
  have r: "remove_contact pb person =
      (None, pb\<lparr>contacts := take i (contacts pb) @ drop (Suc i) (contacts pb)\<rparr>)"
    by (simp add: remove_contact_def i(4))
  have "Suc (length (contacts (snd (remove_contact pb person)))) = length (contacts pb)"
    using i(1) by (simp add: r)
  with i r show "\<exists>i. i < length (contacts pb) \<and> contacts pb ! i = person \<and>
           (\<forall>j<i. contacts pb ! j \<noteq> person) \<and>
           remove_contact pb person =
             (None, pb\<lparr>contacts := take i (contacts pb) @ drop (Suc i) (contacts pb)\<rparr>) \<and>
           Suc (length (contacts (snd (remove_contact pb person)))) = length (contacts pb)"
    by blast
next
  assume "person \<notin> set (contacts pb)"
  then have "list_remove (contacts pb) person = None"
    by (simp add: list_remove_None)
  then show "remove_contact pb person = (Some ValueError, pb)"
    by (simp add: remove_contact_def)
qed

text \<open>
  The theorem at work: removing object 1 from \<open>[0, 1, 0, 1]\<close> deletes index 1 only, and
  removing from the empty phonebook raises.
\<close>

theorem remove_contact_identity_witness:
  "remove_contact \<lparr>contacts = [0, 1, 0, 1]\<rparr> 1 = (None, \<lparr>contacts = [0, 0, 1]\<rparr>) \<and>
   remove_contact \<lparr>contacts = []\<rparr> 1 = (Some ValueError, \<lparr>contacts = []\<rparr>)"
  using remove_contact_identity [of 1 "\<lparr>contacts = [0, 1, 0, 1]\<rparr>"]
    remove_contact_identity [of 1 "\<lparr>contacts = []\<rparr>"]
  by (simp add: remove_contact_def)

text \<open>
  Claim C1 as the specification words it fails: in \<open>twin_store\<close> the phonebook \<open>[0]\<close>
  holds an element that agrees with object 1 on every attribute, yet removing object 1
  raises \<^verbatim>\<open>ValueError\<close> and the phonebook keeps its length.
\<close>

theorem remove_fieldwise_equal_counterexample:
  "objs twin_store 0 = objs twin_store 1 \<and>
   remove_contact \<lparr>contacts = [0]\<rparr> 1 = (Some ValueError, \<lparr>contacts = [0]\<rparr>)"
  by (simp add: twin_store_def empty_store_def new_Person_def remove_contact_def)

section \<open>Update\<close>

lemma update_loop_no_match:
  "\<forall>c\<in>set xs. full_name (objs st c) \<noteq> full_name (objs st person) \<Longrightarrow>
   update_loop st person cs (enumerate n xs) = (Some ValueError, cs)"
  by (induction xs arbitrary: n) auto

lemma update_loop_match:
  "\<exists>c\<in>set xs. full_name (objs st c) = full_name (objs st person) \<Longrightarrow>
   \<exists>i. i < length xs \<and> full_name (objs st (xs ! i)) = full_name (objs st person) \<and>
       (\<forall>j<i. full_name (objs st (xs ! j)) \<noteq> full_name (objs st person)) \<and>
       update_loop st person cs (enumerate n xs) = (None, cs[n + i := person])"
proof (induction xs arbitrary: n)
  case Nil
  then show ?case by simp
next
  case (Cons x xs)
  show ?case
  proof (cases "full_name (objs st x) = full_name (objs st person)")
    case True
    then have "0 < length (x # xs) \<and>
        full_name (objs st ((x # xs) ! 0)) = full_name (objs st person) \<and>
        (\<forall>j<0. full_name (objs st ((x # xs) ! j)) \<noteq> full_name (objs st person)) \<and>
        update_loop st person cs (enumerate n (x # xs)) = (None, cs[n + 0 := person])"
      by simp
    then show ?thesis by blast
  next
    case False
    with Cons.prems have "\<exists>c\<in>set xs. full_name (objs st c) = full_name (objs st person)"
      by simp
    from Cons.IH [OF this, of "Suc n"] obtain i where i: "i < length xs"
      "full_name (objs st (xs ! i)) = full_name (objs st person)"
      "\<forall>j<i. full_name (objs st (xs ! j)) \<noteq> full_name (objs st person)"
      "update_loop st person cs (enumerate (Suc n) xs) = (None, cs[Suc n + i := person])"
      by blast
    have "\<forall>j<Suc i. full_name (objs st ((x # xs) ! j)) \<noteq> full_name (objs st person)"
      using False i(3) by (auto simp: less_Suc_eq_0_disj)
    with i False have "Suc i < length (x # xs) \<and>
        full_name (objs st ((x # xs) ! Suc i)) = full_name (objs st person) \<and>
        (\<forall>j<Suc i. full_name (objs st ((x # xs) ! j)) \<noteq> full_name (objs st person)) \<and>
        update_loop st person cs (enumerate n (x # xs)) = (None, cs[n + Suc i := person])"
      by simp
    then show ?thesis by blast
  qed
qed

text \<open>
  Claim C2. When some contact of the phonebook has the \<^verbatim>\<open>full_name\<close> of \<open>person\<close>,
  \<^verbatim>\<open>update_contact\<close> puts \<open>person\<close> at the first such position \<open>i\<close> and raises nothing:
  every other position and the length are as before. When none has, it raises
  \<^verbatim>\<open>ValueError\<close> and the phonebook is unchanged.
\<close>

theorem update_contact_first_match:
  "((\<exists>c\<in>set (contacts pb). full_name (objs st c) = full_name (objs st person)) \<longrightarrow>
      (\<exists>i. i < length (contacts pb) \<and>
           full_name (objs st (contacts pb ! i)) = full_name (objs st person) \<and>
           (\<forall>j<i. full_name (objs st (contacts pb ! j)) \<noteq> full_name (objs st person)) \<and>
           update_contact st pb person = (None, pb\<lparr>contacts := (contacts pb)[i := person]\<rparr>) \<and>
           contacts (snd (update_contact st pb person)) ! i = person \<and>
           (\<forall>k. k \<noteq> i \<longrightarrow>
              contacts (snd (update_contact st pb person)) ! k = contacts pb ! k) \<and>
           length (contacts (snd (update_contact st pb person))) = length (contacts pb))) \<and>
   ((\<forall>c\<in>set (contacts pb). full_name (objs st c) \<noteq> full_name (objs st person)) \<longrightarrow>
      update_contact st pb person = (Some ValueError, pb))"
proof (intro conjI impI)
  assume "\<exists>c\<in>set (contacts pb). full_name (objs st c) = full_name (objs st person)"
  from update_loop_match [OF this, of "contacts pb" 0] obtain i where i:
    "i < length (contacts pb)"
    "full_name (objs st (contacts pb ! i)) = full_name (objs st person)"
    "\<forall>j<i. full_name (objs st (contacts pb ! j)) \<noteq> full_name (objs st person)"
    "update_loop st person (contacts pb) (enumerate 0 (contacts pb)) =
       (None, (contacts pb)[i := person])"
    by auto
  have r: "update_contact st pb person = (None, pb\<lparr>contacts := (contacts pb)[i := person]\<rparr>)"
    by (simp add: update_contact_def i(4))
  have "contacts (snd (update_contact st pb person)) ! i = person"
    using i(1) by (simp add: r)
  moreover have "\<forall>k. k \<noteq> i \<longrightarrow>
      contacts (snd (update_contact st pb person)) ! k = contacts pb ! k"
    by (simp add: r)
  moreover have "length (contacts (snd (update_contact st pb person))) = length (contacts pb)"
    by (simp add: r)
  ultimately show "\<exists>i. i < length (contacts pb) \<and>
           full_name (objs st (contacts pb ! i)) = full_name (objs st person) \<and>
           (\<forall>j<i. full_name (objs st (contacts pb ! j)) \<noteq> full_name (objs st person)) \<and>
           update_contact st pb person = (None, pb\<lparr>contacts := (contacts pb)[i := person]\<rparr>) \<and>
           contacts (snd (update_contact st pb person)) ! i = person \<and>
           (\<forall>k. k \<noteq> i \<longrightarrow>
              contacts (snd (update_contact st pb person)) ! k = contacts pb ! k) \<and>
           length (contacts (snd (update_contact st pb person))) = length (contacts pb)"
    using i r by blast
next
  assume "\<forall>c\<in>set (contacts pb). full_name (objs st c) \<noteq> full_name (objs st person)"
  from update_loop_no_match [OF this, of "contacts pb" 0]
  show "update_contact st pb person = (Some ValueError, pb)"
    by (simp add: update_contact_def)
qed

lemma trio_objs:
  "full_name (objs trio_store 0) = ''Sam Lee''"
  "full_name (objs trio_store (Suc 0)) = ''Sam Lee''"
  "full_name (objs trio_store 2) = ''Jane Doyle''"
  "full_name (objs trio_store 3) = ''Sam Lee''"
  by (simp_all add: trio_store_def twin_store_def empty_store_def new_Person_def Person_init_def)

text \<open>
  In \<open>trio_store\<close>, updating \<open>[2, 0, 1]\<close> with object 3 (\<open>Sam Lee\<close>) replaces position 1,
  the first \<open>Sam Lee\<close>; updating \<open>[0, 1]\<close> with object 2 (\<open>Jane Doyle\<close>) raises.
\<close>

theorem update_contact_first_match_witness:
  "update_contact trio_store \<lparr>contacts = [2, 0, 1]\<rparr> 3 = (None, \<lparr>contacts = [2, 3, 1]\<rparr>) \<and>
   update_contact trio_store \<lparr>contacts = [0, 1]\<rparr> 2 = (Some ValueError, \<lparr>contacts = [0, 1]\<rparr>)"
  using update_contact_first_match [of "\<lparr>contacts = [2, 0, 1]\<rparr>" trio_store 3]
    update_contact_first_match [of "\<lparr>contacts = [0, 1]\<rparr>" trio_store 2]
  by (simp add: update_contact_def enumerate_eq_zip upt_rec trio_objs)


section \<open>Search\<close>

text \<open>
  For a lower-casing function that maps the empty string to itself, as the built-in
  does, \<open>py_lower\<close> is that function.
\<close>

lemma py_lower_id: "str_lower [] = [] \<Longrightarrow> py_lower str_lower = str_lower"
  by (auto simp: py_lower_def fun_eq_iff)

lemma search_loop_filter:
  "search_loop str_lower st query cs results =
     results @ filter (\<lambda>r. contact_hit str_lower (objs st r) query) cs"
  by (induction cs arbitrary: results) simp_all

lemma field_hit_present:
  "field_hit str_lower v query =
     (field_present v \<and> sublist query (str_lower (py_str v)))"
  by (cases v) (auto simp: field_present_def py_lower_def)

lemma contact_hit_spec:
  "contact_hit str_lower c (py_lower str_lower q) = spec_search_match str_lower q c"
  by (simp add: contact_hit_def spec_search_match_def field_hit_present)

text \<open>
  Claim C5. Whatever function \<^verbatim>\<open>str.lower\<close> is, \<^verbatim>\<open>search_contacts\<close> returns, in the
  phonebook's order, exactly the contacts that match in the specification's sense: the
  lower-cased query is a substring of a lower-cased field that is neither \<^verbatim>\<open>None\<close> nor
  empty. It has no failing branch: a \<^verbatim>\<open>None\<close> or empty attribute is skipped before
  \<^verbatim>\<open>lower\<close> is called on it, and when no contact matches the filter, and so the result,
  is empty.
\<close>

theorem search_contacts_filter:
  "search_contacts str_lower st pb q =
     filter (\<lambda>r. spec_search_match str_lower q (objs st r)) (contacts pb)"
  by (simp add: search_contacts_def search_loop_filter contact_hit_spec)

section \<open>The empty query\<close>

lemma py_lower_Nil: "py_lower str_lower [] = []"
  by (simp add: py_lower_def)

lemma nonempty_full_name_hit: "full_name c \<noteq> [] \<Longrightarrow> contact_hit str_lower c []"
  by (simp add: contact_hit_def)

text \<open>
  Claim C6. The empty query returns the whole phonebook, in order, whatever the four
  attributes of its contacts are, as long as each stored \<^verbatim>\<open>full_name\<close> is a non-empty
  string. The constructor makes it so: \<^verbatim>\<open>full_name\<close> always holds the separating space,
  and nothing in the repository assigns to it afterwards.
\<close>

theorem search_empty_query:
  assumes "\<forall>r\<in>set (contacts pb). full_name (objs st r) \<noteq> []"
  shows "search_contacts str_lower st pb [] = contacts pb"
proof -
  have "filter (\<lambda>r. contact_hit str_lower (objs st r) []) (contacts pb) = contacts pb"
    using assms by (simp add: nonempty_full_name_hit)
  then show ?thesis
    by (simp add: search_contacts_def search_loop_filter py_lower_Nil)
qed

lemma blank_full_names:
  "full_name (objs blank_store 0) = '' ''"
  "full_name (objs blank_store (Suc 0)) = ''Jane Smith''"
  by (simp_all add: blank_store_def empty_store_def new_Person_def Person_init_def)

text \<open>
  In \<open>blank_store\<close> contact 0 has empty names and no phone or address; the empty query
  still returns it, ahead of contact 1.
\<close>

theorem search_empty_query_witness:
  "first_name (objs blank_store 0) = PStr [] \<and> last_name (objs blank_store 0) = PStr [] \<and>
   phone (objs blank_store 0) = PNone \<and> address (objs blank_store 0) = PNone \<and>
   (\<forall>str_lower. search_contacts str_lower blank_store \<lparr>contacts = [0, 1]\<rparr> [] = [0, 1])"
proof -
  have "\<forall>r\<in>set (contacts \<lparr>contacts = [0, 1]\<rparr>). full_name (objs blank_store r) \<noteq> []"
    by (simp add: blank_full_names)
  from search_empty_query [OF this]
  have "\<forall>str_lower. search_contacts str_lower blank_store \<lparr>contacts = [0, 1]\<rparr> [] = [0, 1]"
    by simp
  then show ?thesis
    by (simp add: blank_store_def empty_store_def new_Person_def Person_init_def)
qed

section \<open>Building a contact from a record\<close>

lemma new_Person_obj:
  "objs (snd (new_Person st fn ln ph ad)) (fst (new_Person st fn ln ph ad)) =
     Person_init fn ln ph ad"
  by (simp add: new_Person_def)

lemma from_dict_Inr:
  "data ''first_name'' = Some fn \<Longrightarrow> data ''last_name'' = Some ln \<Longrightarrow>
   from_dict st data =
     Inr (new_Person st fn ln (dict_get data ''phone'') (dict_get data ''address''))"
  by (simp add: from_dict_def)

text \<open>
  Claim C7. \<^verbatim>\<open>from_dict\<close> raises exactly when the record lacks \<^verbatim>\<open>first_name\<close> or
  \<^verbatim>\<open>last_name\<close>, and what it raises is the \<^verbatim>\<open>KeyError\<close> of the first missing key.
  Otherwise it returns a new contact with both names as the record has them, and with
  \<^verbatim>\<open>phone\<close> and \<^verbatim>\<open>address\<close> from the record when present and \<^verbatim>\<open>None\<close> when not.
\<close>

theorem from_dict_required_keys:
  "(isl (from_dict st data) \<longleftrightarrow> data ''first_name'' = None \<or> data ''last_name'' = None) \<and>
   (data ''first_name'' = None \<longrightarrow> from_dict st data = Inl (KeyError ''first_name'')) \<and>
   (data ''first_name'' \<noteq> None \<and> data ''last_name'' = None \<longrightarrow>
      from_dict st data = Inl (KeyError ''last_name'')) \<and>
   (\<forall>fn ln. data ''first_name'' = Some fn \<and> data ''last_name'' = Some ln \<longrightarrow>
      (\<exists>r st'. from_dict st data = Inr (r, st') \<and>
         first_name (objs st' r) = fn \<and> last_name (objs st' r) = ln \<and>
         phone (objs st' r) = (case data ''phone'' of None \<Rightarrow> PNone | Some v \<Rightarrow> v) \<and>
         address (objs st' r) = (case data ''address'' of None \<Rightarrow> PNone | Some v \<Rightarrow> v)))"
proof (intro conjI allI impI)
  show "isl (from_dict st data) \<longleftrightarrow> data ''first_name'' = None \<or> data ''last_name'' = None"
    by (simp add: from_dict_def split: option.splits)
next
  assume "data ''first_name'' = None"
  then show "from_dict st data = Inl (KeyError ''first_name'')"
    by (simp add: from_dict_def)
next
  assume "data ''first_name'' \<noteq> None \<and> data ''last_name'' = None"
  then show "from_dict st data = Inl (KeyError ''last_name'')"
    by (auto simp: from_dict_def)
next
  fix fn ln
  assume a: "data ''first_name'' = Some fn \<and> data ''last_name'' = Some ln"
  let ?res = "new_Person st fn ln (dict_get data ''phone'') (dict_get data ''address'')"
  have eq: "from_dict st data = Inr (fst ?res, snd ?res)"
    using a by (simp add: from_dict_Inr)
  have obj: "objs (snd ?res) (fst ?res) =
      Person_init fn ln (dict_get data ''phone'') (dict_get data ''address'')"
    by (rule new_Person_obj)
  have "first_name (objs (snd ?res) (fst ?res)) = fn \<and>
        last_name (objs (snd ?res) (fst ?res)) = ln \<and>
        phone (objs (snd ?res) (fst ?res)) =
          (case data ''phone'' of None \<Rightarrow> PNone | Some v \<Rightarrow> v) \<and>
        address (objs (snd ?res) (fst ?res)) =
          (case data ''address'' of None \<Rightarrow> PNone | Some v \<Rightarrow> v)"
    unfolding obj by (simp add: Person_init_def dict_get_def)
  with eq show "\<exists>r st'. from_dict st data = Inr (r, st') \<and>
         first_name (objs st' r) = fn \<and> last_name (objs st' r) = ln \<and>
         phone (objs st' r) = (case data ''phone'' of None \<Rightarrow> PNone | Some v \<Rightarrow> v) \<and>
         address (objs st' r) = (case data ''address'' of None \<Rightarrow> PNone | Some v \<Rightarrow> v)"
    by blast
qed

text \<open>
  A record without \<^verbatim>\<open>last_name\<close>, the empty record, and a record with both names and
  neither phone nor address.
\<close>

theorem from_dict_required_keys_witness:
  "from_dict empty_store nameless_record = Inl (KeyError ''last_name'') \<and>
   from_dict empty_store Map.empty = Inl (KeyError ''first_name'') \<and>
   (\<exists>r st'. from_dict empty_store john_record = Inr (r, st') \<and>
      first_name (objs st' r) = PStr ''John'' \<and> last_name (objs st' r) = PStr ''Doe'' \<and>
      phone (objs st' r) = PNone \<and> address (objs st' r) = PNone)"
  using from_dict_required_keys [of empty_store nameless_record]
    from_dict_required_keys [of empty_store Map.empty]
    from_dict_required_keys [of empty_store john_record]
  by (simp add: nameless_record_def john_record_def)

section \<open>The stored full name is not read\<close>

lemma from_dict_ignores_full_name:
  "from_dict st (data(''full_name'' := x)) = from_dict st data"
  by (simp add: from_dict_def dict_get_def split: option.splits)

lemma load_loop_cong:
  "\<forall>st. \<forall>d\<in>set ds. from_dict st (g d) = from_dict st d \<Longrightarrow>
   load_loop (map g ds) s = load_loop ds s"
proof (induction ds arbitrary: s)
  case Nil
  then show ?case by simp
next
  case (Cons d ds)
  obtain st pb where s: "s = (st, pb)" by (cases s)
  from Cons.prems have d: "from_dict st (g d) = from_dict st d"
    and ds: "\<forall>st. \<forall>d\<in>set ds. from_dict st (g d) = from_dict st d"
    by simp_all
  show ?case
    by (simp add: s d Cons.IH [OF ds] split: sum.splits prod.splits)
qed

lemma load_loop_ignores_full_name:
  "load_loop (map (\<lambda>d. d(''full_name'' := x d)) ds) s = load_loop ds s"
  by (rule load_loop_cong) (simp add: from_dict_ignores_full_name)

lemma space_in_full_name: "CHR '' '' \<in> set (full_name (Person_init fn ln ph ad))"
  by (simp add: Person_init_def)

section \<open>The dictionary written to a file\<close>

lemma map_of_dict_set: "map_of (dict_set d k v) = (map_of d)(k \<mapsto> v)"
  by (induction d) (auto simp: fun_eq_iff)

lemma keys_dict_set:
  "map fst (dict_set d k v) = (if k \<in> set (map fst d) then map fst d else map fst d @ [k])"
proof (induction d)
  case Nil
  then show ?case by simp
next
  case (Cons e d)
  obtain k' v' where e: "e = (k', v')" by (cases e)
  show ?case
  proof (cases "k' = k")
    case True
    then show ?thesis by (simp add: e)
  next
    case False
    with Cons.IH show ?thesis by (simp add: e)
  qed
qed

lemma distinct_dict_set: "distinct (map fst d) \<Longrightarrow> distinct (map fst (dict_set d k v))"
  by (simp add: keys_dict_set)

lemma serialize_data_snoc:
  "serialize_data st (cs @ [c]) =
     dict_set (serialize_data st cs) (full_name (objs st c)) (person_dict (objs st c))"
  by (simp add: serialize_data_def)

lemma serialize_data_Nil: "serialize_data st [] = []"
  by (simp add: serialize_data_def)

lemma serialize_data_keys:
  "set (map fst (serialize_data st cs)) = (\<lambda>r. full_name (objs st r)) ` set cs"
  by (induction cs rule: rev_induct)
    (auto simp: serialize_data_Nil serialize_data_snoc keys_dict_set)

lemma serialize_data_distinct: "distinct (map fst (serialize_data st cs))"
  by (induction cs rule: rev_induct)
    (simp_all add: serialize_data_Nil serialize_data_snoc distinct_dict_set)

lemma serialize_data_lookup:
  "map_of (serialize_data st cs) k =
     map_option (\<lambda>r. person_dict (objs st r))
       (find (\<lambda>r. full_name (objs st r) = k) (rev cs))"
  by (induction cs rule: rev_induct)
    (simp_all add: serialize_data_Nil serialize_data_snoc map_of_dict_set)

lemma dom_person_dict:
  "dom (person_dict p) = {''first_name'', ''last_name'', ''phone'', ''address'', ''full_name''}"
  by (auto simp: person_dict_def)

lemma save_to_file_no_error: "\<not> isl (save_to_file L st pb file_format)"
  by (simp add: save_to_file_def Let_def)

lemma save_to_file_json:
  "save_to_file L st pb ''json'' = Inr (json_dump L (serialize_data st (contacts pb)))"
  by (simp add: save_to_file_def)

lemma save_to_file_yaml:
  "save_to_file L st pb ''yaml'' = Inr (yaml_dump L (serialize_data st (contacts pb)))"
  by (simp add: save_to_file_def)

text \<open>
  Claim C4. In either supported format, what \<^verbatim>\<open>save_to_file\<close> leaves in the file is the
  library's dump of the dictionary \<open>serialize_data st (contacts pb)\<close>. That dictionary has
  as keys exactly the stored \<^verbatim>\<open>full_name\<close>s of the contacts, each key once; the value under
  a key \<open>k\<close> is the \<^verbatim>\<open>__dict__\<close> of the last contact in phonebook order whose \<^verbatim>\<open>full_name\<close>
  is \<open>k\<close> (searching the reversed sequence finds the last one first); a \<^verbatim>\<open>__dict__\<close> has
  the five attributes under their names and nothing else; and \<^verbatim>\<open>save_to_file\<close> raises
  nothing, whatever the format.
\<close>

theorem save_to_file_mapping:
  "save_to_file L st pb ''json'' = Inr (json_dump L (serialize_data st (contacts pb))) \<and>
   save_to_file L st pb ''yaml'' = Inr (yaml_dump L (serialize_data st (contacts pb))) \<and>
   set (map fst (serialize_data st (contacts pb))) =
     (\<lambda>r. full_name (objs st r)) ` set (contacts pb) \<and>
   distinct (map fst (serialize_data st (contacts pb))) \<and>
   map_of (serialize_data st (contacts pb)) k =
     map_option (\<lambda>r. person_dict (objs st r))
       (find (\<lambda>r. full_name (objs st r) = k) (rev (contacts pb))) \<and>
   dom (person_dict p) = {''first_name'', ''last_name'', ''phone'', ''address'', ''full_name''} \<and>
   person_dict p ''first_name'' = Some (first_name p) \<and>
   person_dict p ''last_name'' = Some (last_name p) \<and>
   person_dict p ''phone'' = Some (phone p) \<and>
   person_dict p ''address'' = Some (address p) \<and>
   person_dict p ''full_name'' = Some (PStr (full_name p)) \<and>
   \<not> isl (save_to_file L st pb file_format)"
proof (intro conjI)
  show "save_to_file L st pb ''json'' = Inr (json_dump L (serialize_data st (contacts pb)))"
    by (rule save_to_file_json)
  show "save_to_file L st pb ''yaml'' = Inr (yaml_dump L (serialize_data st (contacts pb)))"
    by (rule save_to_file_yaml)
  show "set (map fst (serialize_data st (contacts pb))) =
     (\<lambda>r. full_name (objs st r)) ` set (contacts pb)"
    by (rule serialize_data_keys)
  show "distinct (map fst (serialize_data st (contacts pb)))"
    by (rule serialize_data_distinct)
  show "map_of (serialize_data st (contacts pb)) k =
     map_option (\<lambda>r. person_dict (objs st r))
       (find (\<lambda>r. full_name (objs st r) = k) (rev (contacts pb)))"
    by (rule serialize_data_lookup)
  show "dom (person_dict p) = {''first_name'', ''last_name'', ''phone'', ''address'', ''full_name''}"
    by (rule dom_person_dict)
  show "\<not> isl (save_to_file L st pb file_format)"
    by (rule save_to_file_no_error)
qed (simp_all add: person_dict_def)

text \<open>
  The scenario of the specification: contacts 0 and 3 of \<open>trio_store\<close> are both
  \<open>Sam Lee\<close>, the first without a phone; the dictionary has the single key \<open>Sam Lee\<close>
  with the attributes of contact 3.
\<close>

lemma trio_sam_lee:
  "full_name (objs trio_store 0) = ''Sam Lee''"
  "full_name (objs trio_store 3) = ''Sam Lee''"
  by (simp_all add: trio_store_def twin_store_def empty_store_def new_Person_def Person_init_def)

lemma serialize_sam_lee:
  "serialize_data trio_store [0, 3] = [(''Sam Lee'', person_dict (objs trio_store 3))] \<and>
   phone (objs trio_store 0) = PNone \<and> phone (objs trio_store 3) = PStr ''555-0000''"
proof -
  have "serialize_data trio_store [0, 3] = [(''Sam Lee'', person_dict (objs trio_store 3))]"
    by (simp add: serialize_data_def trio_sam_lee)
  moreover have "phone (objs trio_store 0) = PNone \<and> phone (objs trio_store 3) = PStr ''555-0000''"
    by (simp add: trio_store_def twin_store_def empty_store_def new_Person_def Person_init_def)
  ultimately show ?thesis by simp
qed


section \<open>Loading appends\<close>

lemma from_dict_named:
  assumes "d ''first_name'' \<noteq> None" "d ''last_name'' \<noteq> None"
  shows "from_dict st d =
     Inr (next_ref st,
          st\<lparr>objs := (objs st)(next_ref st := contact_of_record d),
             next_ref := Suc (next_ref st)\<rparr>)"
  using assms
  by (auto simp: from_dict_def new_Person_def contact_of_record_def dict_get_def)

lemma load_loop_appends:
  "\<forall>d\<in>set ds. d ''first_name'' \<noteq> None \<and> d ''last_name'' \<noteq> None \<Longrightarrow>
   \<exists>st'. load_loop ds (st, pb) =
          (None, (st', pb\<lparr>contacts := contacts pb @ [next_ref st ..< next_ref st + length ds]\<rparr>)) \<and>
        next_ref st' = next_ref st + length ds \<and>
        (\<forall>r<next_ref st. objs st' r = objs st r) \<and>
        (\<forall>i<length ds. objs st' (next_ref st + i) = contact_of_record (ds ! i))"
proof (induction ds arbitrary: st pb)
  case Nil
  then show ?case by simp
next
  case (Cons d ds)
  let ?n = "next_ref st"
  let ?st1 = "st\<lparr>objs := (objs st)(?n := contact_of_record d), next_ref := Suc ?n\<rparr>"
  let ?pb1 = "pb\<lparr>contacts := contacts pb @ [?n]\<rparr>"
  from Cons.prems have d: "d ''first_name'' \<noteq> None" "d ''last_name'' \<noteq> None"
    and ds: "\<forall>d\<in>set ds. d ''first_name'' \<noteq> None \<and> d ''last_name'' \<noteq> None"
    by simp_all
  have step: "load_loop (d # ds) (st, pb) = load_loop ds (?st1, ?pb1)"
    by (simp add: from_dict_named [OF d])
  from Cons.IH [OF ds, of ?st1 ?pb1] obtain st' where st':
    "load_loop ds (?st1, ?pb1) =
       (None, (st', ?pb1\<lparr>contacts := contacts ?pb1 @ [Suc ?n ..< Suc ?n + length ds]\<rparr>))"
    "next_ref st' = Suc ?n + length ds"
    "\<forall>r<Suc ?n. objs st' r = objs ?st1 r"
    "\<forall>i<length ds. objs st' (Suc ?n + i) = contact_of_record (ds ! i)"
    by auto
  have len: "?n + length (d # ds) = Suc ?n + length ds"
    by simp
  have upt: "[?n ..< ?n + length (d # ds)] = ?n # [Suc ?n ..< Suc ?n + length ds]"
    unfolding len by (rule upt_conv_Cons) simp
  have a: "load_loop (d # ds) (st, pb) =
      (None, (st', pb\<lparr>contacts := contacts pb @ [?n ..< ?n + length (d # ds)]\<rparr>))"
    unfolding step st'(1) upt by simp
  have b: "next_ref st' = ?n + length (d # ds)"
    using st'(2) by simp
  have c: "\<forall>r<?n. objs st' r = objs st r"
    using st'(3) by simp
  have e: "\<forall>i<length (d # ds). objs st' (?n + i) = contact_of_record ((d # ds) ! i)"
  proof (intro allI impI)
    fix i assume i: "i < length (d # ds)"
    show "objs st' (?n + i) = contact_of_record ((d # ds) ! i)"
    proof (cases i)
      case 0
      with st'(3) show ?thesis by simp
    next
      case (Suc j)
      with i st'(4) show ?thesis by simp
    qed
  qed
  from a b c e show ?case by blast
qed

lemma map_objs_upt:
  "\<forall>i<length ds. objs st' (n + i) = f (ds ! i) \<Longrightarrow>
   map (objs st') [n ..< n + length ds] = map f ds"
  by (rule nth_equalityI) simp_all

lemma load_from_file_parsed:
  "file_format = ''json'' \<and> json_load L file_text = Inr data \<or>
   file_format = ''yaml'' \<and> yaml_safe_load L file_text = Inr data \<Longrightarrow>
   load_from_file L file_text file_format s = load_loop (map snd data) s"
  by (auto simp: load_from_file_def)

text \<open>
  Claim C8, as the code has it. When the file parses in the requested format to a
  dictionary \<open>data\<close> whose values all have \<^verbatim>\<open>first_name\<close> and \<^verbatim>\<open>last_name\<close>, and the contacts already in the
  phonebook are objects of the store, \<^verbatim>\<open>load_from_file\<close> raises nothing and appends one new
  contact per entry of \<open>data\<close>, in order, built from the entry's value alone (its key is
  not used): the length grows by the number of entries, and every earlier position holds
  the same object with the same attributes as before.
\<close>

theorem load_from_file_appends:
  assumes parsed: "file_format = ''json'' \<and> json_load L file_text = Inr data \<or>
      file_format = ''yaml'' \<and> yaml_safe_load L file_text = Inr data"
    and named: "\<forall>d\<in>set (map snd data). d ''first_name'' \<noteq> None \<and> d ''last_name'' \<noteq> None"
    and alloc: "\<forall>r\<in>set (contacts pb). r < next_ref st"
  shows "\<exists>st'.
      load_from_file L file_text file_format (st, pb) =
        (None, (st', pb\<lparr>contacts :=
           contacts pb @ [next_ref st ..< next_ref st + length data]\<rparr>)) \<and>
      length (contacts pb @ [next_ref st ..< next_ref st + length data]) =
        length (contacts pb) + length data \<and>
      map (objs st') [next_ref st ..< next_ref st + length data] =
        map (\<lambda>(k, d). contact_of_record d) data \<and>
      (\<forall>i<length (contacts pb).
         (contacts pb @ [next_ref st ..< next_ref st + length data]) ! i = contacts pb ! i \<and>
         objs st' (contacts pb ! i) = objs st (contacts pb ! i))"
proof -
  let ?news = "[next_ref st ..< next_ref st + length (map snd data)]"
  from load_loop_appends [OF named, of st pb] obtain st' where st':
    "load_loop (map snd data) (st, pb) = (None, (st', pb\<lparr>contacts := contacts pb @ ?news\<rparr>))"
    "\<forall>r<next_ref st. objs st' r = objs st r"
    "\<forall>i<length (map snd data). objs st' (next_ref st + i) = contact_of_record (map snd data ! i)"
    by blast
  have a: "load_from_file L file_text file_format (st, pb) =
      (None, (st', pb\<lparr>contacts := contacts pb @ ?news\<rparr>))"
    using load_from_file_parsed [OF parsed] st'(1) by simp
  have "map (objs st') ?news = map contact_of_record (map snd data)"
    by (rule map_objs_upt [OF st'(3)])
  then have c: "map (objs st') ?news = map (\<lambda>(k, d). contact_of_record d) data"
    by (simp add: case_prod_beta comp_def)
  have d: "\<forall>i<length (contacts pb).
      (contacts pb @ ?news) ! i = contacts pb ! i \<and>
      objs st' (contacts pb ! i) = objs st (contacts pb ! i)"
    using alloc st'(2) by (simp add: nth_append)
  from a c d show ?thesis
    by (intro exI [of _ st']) simp
qed

lemma zed_full_names:
  "full_name (objs zed_store 0) = ''Zed Young''"
  "full_name (objs zed_store (Suc 0)) = ''Amy Adams''"
  by (simp_all add: zed_store_def empty_store_def new_Person_def Person_init_def)

lemma sample_data_eq:
  "sample_data = [(''Zed Young'', person_dict (objs zed_store 0)),
                  (''Amy Adams'', person_dict (objs zed_store 1))]"
  by (simp add: sample_data_def serialize_data_def zed_full_names)

lemma twin_next: "next_ref twin_store = 2"
  by (simp add: twin_store_def new_Person_def empty_store_def)

lemma sample_named:
  "\<forall>d\<in>set (map snd sample_data). d ''first_name'' \<noteq> None \<and> d ''last_name'' \<noteq> None"
  by (simp add: sample_data_eq person_dict_def)

text \<open>
  Loading the two entries of \<open>sample_data\<close> into the phonebook \<open>[1, 0]\<close> over
  \<open>twin_store\<close> gives \<open>[1, 0, 2, 3]\<close>, with objects 0 and 1 untouched.
\<close>

theorem load_from_file_appends_witness:
  "\<exists>st'. load_from_file demo_codec ''json text'' ''json'' (twin_store, \<lparr>contacts = [1, 0]\<rparr>) =
      (None, (st', \<lparr>contacts = [1, 0, 2, 3]\<rparr>)) \<and>
      objs st' 1 = objs twin_store 1 \<and> objs st' 0 = objs twin_store 0 \<and>
      map (objs st') [2, 3] = map (\<lambda>(k, d). contact_of_record d) sample_data"
proof -
  have p: "''json'' = ''json'' \<and> json_load demo_codec ''json text'' = Inr sample_data \<or>
      ''json'' = ''yaml'' \<and> yaml_safe_load demo_codec ''json text'' = Inr sample_data"
    by (simp add: demo_codec_def)
  have a: "\<forall>r\<in>set (contacts \<lparr>contacts = [1, 0]\<rparr>). r < next_ref twin_store"
    by (simp add: twin_next)
  have l: "length sample_data = 2"
    by (simp add: sample_data_eq)
  from load_from_file_appends [OF p sample_named a] obtain st' where
    r: "load_from_file demo_codec ''json text'' ''json'' (twin_store, \<lparr>contacts = [1, 0]\<rparr>) =
        (None, (st', \<lparr>contacts = [1, 0]\<rparr>\<lparr>contacts := contacts \<lparr>contacts = [1, 0]\<rparr> @
           [next_ref twin_store ..< next_ref twin_store + length sample_data]\<rparr>))"
    and m: "map (objs st') [next_ref twin_store ..< next_ref twin_store + length sample_data] =
        map (\<lambda>(k, d). contact_of_record d) sample_data"
    and o: "\<forall>i<length (contacts \<lparr>contacts = [1, 0]\<rparr>).
        (contacts \<lparr>contacts = [1, 0]\<rparr> @
           [next_ref twin_store ..< next_ref twin_store + length sample_data]) ! i =
          contacts \<lparr>contacts = [1, 0]\<rparr> ! i \<and>
        objs st' (contacts \<lparr>contacts = [1, 0]\<rparr> ! i) =
          objs twin_store (contacts \<lparr>contacts = [1, 0]\<rparr> ! i)"
    by blast
  have u: "[next_ref twin_store ..< next_ref twin_store + length sample_data] = [2, 3]"
    by (simp add: twin_next l)
  from o have o1: "objs st' 1 = objs twin_store 1" and o0: "objs st' 0 = objs twin_store 0"
    by (simp_all add: All_less_Suc)
  from r have r': "load_from_file demo_codec ''json text'' ''json''
      (twin_store, \<lparr>contacts = [1, 0]\<rparr>) = (None, (st', \<lparr>contacts = [1, 0, 2, 3]\<rparr>))"
    unfolding u by simp
  from m have m': "map (objs st') [2, 3] = map (\<lambda>(k, d). contact_of_record d) sample_data"
    unfolding u .
  from r' o1 o0 m' show ?thesis
    by blast
qed

text \<open>
  Claim C8 as the specification words it fails: the text \<open>partial json\<close> parses to two
  entries, the second without \<^verbatim>\<open>last_name\<close>. Loading it into the phonebook \<open>[1, 0]\<close>
  raises \<^verbatim>\<open>KeyError\<close> and leaves three contacts, not four: the first entry's contact has
  been appended, the second's has not.
\<close>

theorem load_partial_counterexample:
  "json_load demo_codec ''partial json'' = Inr partial_data \<and>
   length partial_data = 2 \<and>
   load_from_file demo_codec ''partial json'' ''json'' (twin_store, \<lparr>contacts = [1, 0]\<rparr>) =
     (Some (KeyError ''last_name''),
      (snd (new_Person twin_store (PStr ''John'') (PStr ''Doe'') PNone PNone),
       \<lparr>contacts = [1, 0, 2]\<rparr>))"
proof -
  have "json_load demo_codec ''partial json'' = Inr partial_data"
    by (simp add: demo_codec_def)
  moreover have "length partial_data = 2"
    by (simp add: partial_data_def)
  moreover have "load_loop (map snd partial_data) (twin_store, \<lparr>contacts = [1, 0]\<rparr>) =
     (Some (KeyError ''last_name''),
      (snd (new_Person twin_store (PStr ''John'') (PStr ''Doe'') PNone PNone),
       \<lparr>contacts = [1, 0, 2]\<rparr>))"
    by (simp add: partial_data_def from_dict_def john_record_def nameless_record_def dict_get_def
        new_Person_def twin_next)
  ultimately show ?thesis
    by (simp add: load_from_file_def)
qed

section \<open>Loaded contacts and their full names\<close>

lemma full_name_of_record:
  "full_name (contact_of_record d) =
     py_str (dict_get d ''first_name'') @ '' '' @ py_str (dict_get d ''last_name'')"
  by (simp add: contact_of_record_def Person_init_def)

lemma names_of_record:
  "first_name (contact_of_record d) = dict_get d ''first_name''"
  "last_name (contact_of_record d) = dict_get d ''last_name''"
  by (simp_all add: contact_of_record_def Person_init_def)

lemma load_from_file_recomputes:
  assumes parsed: "file_format = ''json'' \<and> json_load L file_text = Inr entries \<or>
      file_format = ''yaml'' \<and> yaml_safe_load L file_text = Inr entries"
    and named: "\<forall>d\<in>set (map snd entries). d ''first_name'' \<noteq> None \<and> d ''last_name'' \<noteq> None"
  shows "\<exists>st1.
      load_from_file L file_text file_format (st, pb) =
        (None, (st1, pb\<lparr>contacts :=
           contacts pb @ [next_ref st ..< next_ref st + length entries]\<rparr>)) \<and>
      (\<forall>i<length entries.
         first_name (objs st1 (next_ref st + i)) = dict_get (snd (entries ! i)) ''first_name'' \<and>
         last_name (objs st1 (next_ref st + i)) = dict_get (snd (entries ! i)) ''last_name'' \<and>
         full_name (objs st1 (next_ref st + i)) =
           py_str (dict_get (snd (entries ! i)) ''first_name'') @ '' '' @
           py_str (dict_get (snd (entries ! i)) ''last_name''))"
proof -
  from load_loop_appends [OF named, of st pb] obtain st1 where st1:
    "load_loop (map snd entries) (st, pb) =
       (None, (st1, pb\<lparr>contacts :=
          contacts pb @ [next_ref st ..< next_ref st + length (map snd entries)]\<rparr>))"
    "\<forall>i<length (map snd entries).
       objs st1 (next_ref st + i) = contact_of_record (map snd entries ! i)"
    by blast
  have a: "load_from_file L file_text file_format (st, pb) =
      (None, (st1, pb\<lparr>contacts :=
         contacts pb @ [next_ref st ..< next_ref st + length entries]\<rparr>))"
    using load_from_file_parsed [OF parsed] st1(1) by simp
  have b: "\<forall>i<length entries.
      objs st1 (next_ref st + i) = contact_of_record (snd (entries ! i))"
    using st1(2) by simp
  have c: "\<forall>i<length entries.
         first_name (objs st1 (next_ref st + i)) = dict_get (snd (entries ! i)) ''first_name'' \<and>
         last_name (objs st1 (next_ref st + i)) = dict_get (snd (entries ! i)) ''last_name'' \<and>
         full_name (objs st1 (next_ref st + i)) =
           py_str (dict_get (snd (entries ! i)) ''first_name'') @ '' '' @
           py_str (dict_get (snd (entries ! i)) ''last_name'')"
    using b by (simp add: full_name_of_record names_of_record)
  from a c show ?thesis by blast
qed

text \<open>
  Claim C10. The object the constructor makes has \<^verbatim>\<open>full_name\<close> equal to the first name,
  one space and the last name (for \<^verbatim>\<open>None\<close> the text \<^verbatim>\<open>None\<close>, as \<^verbatim>\<open>format\<close> renders it),
  so the space is always there. A contact returned by \<^verbatim>\<open>from_dict\<close> has the record's two
  names and the \<^verbatim>\<open>full_name\<close> computed from them; what the record holds under
  \<^verbatim>\<open>full_name\<close> changes neither the result of \<^verbatim>\<open>from_dict\<close> nor that of the loading loop.
  And loading a file whose records all have both names appends one contact per record,
  each with the record's two names and with \<^verbatim>\<open>full_name\<close> computed from those two names.
\<close>

theorem full_name_derived:
  "full_name (objs (snd (new_Person st (PStr f) (PStr l) ph ad))
      (fst (new_Person st (PStr f) (PStr l) ph ad))) = f @ '' '' @ l \<and>
   full_name (objs (snd (new_Person st fn ln ph ad)) (fst (new_Person st fn ln ph ad))) =
      py_str fn @ '' '' @ py_str ln \<and>
   CHR '' '' \<in> set (full_name (objs (snd (new_Person st fn ln ph ad))
      (fst (new_Person st fn ln ph ad)))) \<and>
   (from_dict st data = Inr (r, st') \<longrightarrow>
      data ''first_name'' = Some (first_name (objs st' r)) \<and>
      data ''last_name'' = Some (last_name (objs st' r)) \<and>
      full_name (objs st' r) =
        py_str (first_name (objs st' r)) @ '' '' @ py_str (last_name (objs st' r))) \<and>
   from_dict st (data(''full_name'' := x)) = from_dict st data \<and>
   load_loop (map (\<lambda>d. d(''full_name'' := y d)) ds) s = load_loop ds s \<and>
   ((file_format = ''json'' \<and> json_load L file_text = Inr entries \<or>
     file_format = ''yaml'' \<and> yaml_safe_load L file_text = Inr entries) \<and>
    (\<forall>d\<in>set (map snd entries). d ''first_name'' \<noteq> None \<and> d ''last_name'' \<noteq> None) \<longrightarrow>
      (\<exists>st1.
         load_from_file L file_text file_format (st, pb) =
           (None, (st1, pb\<lparr>contacts :=
              contacts pb @ [next_ref st ..< next_ref st + length entries]\<rparr>)) \<and>
         (\<forall>i<length entries.
            first_name (objs st1 (next_ref st + i)) =
              dict_get (snd (entries ! i)) ''first_name'' \<and>
            last_name (objs st1 (next_ref st + i)) =
              dict_get (snd (entries ! i)) ''last_name'' \<and>
            full_name (objs st1 (next_ref st + i)) =
              py_str (dict_get (snd (entries ! i)) ''first_name'') @ '' '' @
              py_str (dict_get (snd (entries ! i)) ''last_name''))))"
proof (intro conjI impI)
  show "full_name (objs (snd (new_Person st (PStr f) (PStr l) ph ad))
      (fst (new_Person st (PStr f) (PStr l) ph ad))) = f @ '' '' @ l"
    by (simp add: new_Person_obj Person_init_def)
  show "full_name (objs (snd (new_Person st fn ln ph ad)) (fst (new_Person st fn ln ph ad))) =
      py_str fn @ '' '' @ py_str ln"
    by (simp add: new_Person_obj Person_init_def)
  show "CHR '' '' \<in> set (full_name (objs (snd (new_Person st fn ln ph ad))
      (fst (new_Person st fn ln ph ad))))"
    by (simp only: new_Person_obj space_in_full_name)
  show "from_dict st (data(''full_name'' := x)) = from_dict st data"
    by (rule from_dict_ignores_full_name)
  show "load_loop (map (\<lambda>d. d(''full_name'' := y d)) ds) s = load_loop ds s"
    by (rule load_loop_ignores_full_name)
next
  assume a: "from_dict st data = Inr (r, st')"
  then obtain fn ln where k: "data ''first_name'' = Some fn" "data ''last_name'' = Some ln"
    by (auto simp: from_dict_def split: option.splits)
  let ?res = "new_Person st fn ln (dict_get data ''phone'') (dict_get data ''address'')"
  from a k have "?res = (r, st')"
    by (simp add: from_dict_Inr)
  then have r: "r = fst ?res" "st' = snd ?res"
    by simp_all
  have obj: "objs st' r = Person_init fn ln (dict_get data ''phone'') (dict_get data ''address'')"
    unfolding r by (rule new_Person_obj)
  show "data ''first_name'' = Some (first_name (objs st' r))"
    by (simp add: obj k Person_init_def)
  show "data ''last_name'' = Some (last_name (objs st' r))"
    by (simp add: obj k Person_init_def)
  show "full_name (objs st' r) =
        py_str (first_name (objs st' r)) @ '' '' @ py_str (last_name (objs st' r))"
    by (simp add: obj Person_init_def)
next
  assume h: "(file_format = ''json'' \<and> json_load L file_text = Inr entries \<or>
     file_format = ''yaml'' \<and> yaml_safe_load L file_text = Inr entries) \<and>
    (\<forall>d\<in>set (map snd entries). d ''first_name'' \<noteq> None \<and> d ''last_name'' \<noteq> None)"
  from h have parsed: "file_format = ''json'' \<and> json_load L file_text = Inr entries \<or>
      file_format = ''yaml'' \<and> yaml_safe_load L file_text = Inr entries"
    by (rule conjunct1)
  from h have named:
    "\<forall>d\<in>set (map snd entries). d ''first_name'' \<noteq> None \<and> d ''last_name'' \<noteq> None"
    by (rule conjunct2)
  show "\<exists>st1.
         load_from_file L file_text file_format (st, pb) =
           (None, (st1, pb\<lparr>contacts :=
              contacts pb @ [next_ref st ..< next_ref st + length entries]\<rparr>)) \<and>
         (\<forall>i<length entries.
            first_name (objs st1 (next_ref st + i)) =
              dict_get (snd (entries ! i)) ''first_name'' \<and>
            last_name (objs st1 (next_ref st + i)) =
              dict_get (snd (entries ! i)) ''last_name'' \<and>
            full_name (objs st1 (next_ref st + i)) =
              py_str (dict_get (snd (entries ! i)) ''first_name'') @ '' '' @
              py_str (dict_get (snd (entries ! i)) ''last_name''))"
    by (rule load_from_file_recomputes [OF parsed named])
qed

lemma stale_named:
  "\<forall>d\<in>set (map snd stale_data). d ''first_name'' \<noteq> None \<and> d ''last_name'' \<noteq> None"
  by (simp add: stale_data_def john_record_def)

text \<open>
  \<open>john_record\<close> stores another \<^verbatim>\<open>full_name\<close>; the contact made from it is \<open>John Doe\<close>,
  by \<^verbatim>\<open>from_dict\<close> and by loading a file that holds the record.
\<close>

theorem full_name_derived_witness:
  "from_dict empty_store john_record =
     Inr (0, snd (new_Person empty_store (PStr ''John'') (PStr ''Doe'') PNone PNone)) \<and>
   john_record ''full_name'' = Some (PStr ''Somebody Else'') \<and>
   full_name (objs (snd (new_Person empty_store (PStr ''John'') (PStr ''Doe'') PNone PNone)) 0) =
     ''John Doe'' \<and>
   json_load demo_codec ''stale json'' = Inr [(''Somebody Else'', john_record)] \<and>
   (\<exists>st1. load_from_file demo_codec ''stale json'' ''json'' (empty_store, Phonebook_init) =
       (None, (st1, \<lparr>contacts = [0]\<rparr>)) \<and>
     full_name (objs st1 0) = ''John Doe'')"
proof -
  let ?st' = "snd (new_Person empty_store (PStr ''John'') (PStr ''Doe'') PNone PNone)"
  note T = full_name_derived [where st = empty_store and data = john_record and r = 0
      and st' = ?st' and L = demo_codec and file_text = "''stale json''"
      and file_format = "''json''" and entries = stale_data and pb = Phonebook_init]
  have e: "from_dict empty_store john_record = Inr (0, ?st')"
    by (simp add: from_dict_def john_record_def dict_get_def new_Person_def empty_store_def)
  from T [THEN conjunct2, THEN conjunct2, THEN conjunct2, THEN conjunct1] e
  have "full_name (objs ?st' 0) =
      py_str (first_name (objs ?st' 0)) @ '' '' @ py_str (last_name (objs ?st' 0))"
    by blast
  then have f: "full_name (objs ?st' 0) = ''John Doe''"
    by (simp add: new_Person_def empty_store_def Person_init_def)
  have p: "json_load demo_codec ''stale json'' = Inr stale_data"
    by (simp add: demo_codec_def)
  have h: "(''json'' = ''json'' \<and> json_load demo_codec ''stale json'' = Inr stale_data \<or>
     ''json'' = ''yaml'' \<and> yaml_safe_load demo_codec ''stale json'' = Inr stale_data) \<and>
    (\<forall>d\<in>set (map snd stale_data). d ''first_name'' \<noteq> None \<and> d ''last_name'' \<noteq> None)"
    using p stale_named by simp
  from T [THEN conjunct2, THEN conjunct2, THEN conjunct2, THEN conjunct2, THEN conjunct2,
      THEN conjunct2, rule_format, OF h]
  obtain st1 where l:
    "load_from_file demo_codec ''stale json'' ''json'' (empty_store, Phonebook_init) =
       (None, (st1, Phonebook_init\<lparr>contacts := contacts Phonebook_init @
          [next_ref empty_store ..< next_ref empty_store + length stale_data]\<rparr>))"
    and n: "\<forall>i<length stale_data.
        first_name (objs st1 (next_ref empty_store + i)) =
          dict_get (snd (stale_data ! i)) ''first_name'' \<and>
        last_name (objs st1 (next_ref empty_store + i)) =
          dict_get (snd (stale_data ! i)) ''last_name'' \<and>
        full_name (objs st1 (next_ref empty_store + i)) =
          py_str (dict_get (snd (stale_data ! i)) ''first_name'') @ '' '' @
          py_str (dict_get (snd (stale_data ! i)) ''last_name'')"
    by blast
  from l have l': "load_from_file demo_codec ''stale json'' ''json''
      (empty_store, Phonebook_init) = (None, (st1, \<lparr>contacts = [0]\<rparr>))"
    by (simp add: stale_data_def empty_store_def Phonebook_init_def)
  from n have n': "full_name (objs st1 0) = ''John Doe''"
    by (simp add: stale_data_def empty_store_def john_record_def dict_get_def)
  from l' n' have g: "\<exists>st1. load_from_file demo_codec ''stale json'' ''json''
      (empty_store, Phonebook_init) = (None, (st1, \<lparr>contacts = [0]\<rparr>)) \<and>
     full_name (objs st1 0) = ''John Doe''"
    by blast
  have q: "john_record ''full_name'' = Some (PStr ''Somebody Else'')"
    by (simp add: john_record_def)
  have p': "json_load demo_codec ''stale json'' = Inr [(''Somebody Else'', john_record)]"
    using p by (simp only: stale_data_def)
  from e q f p' g show ?thesis
    by (intro conjI)
qed

section \<open>Unsupported formats and unreadable files\<close>

text \<open>
  Claim C9, as the code has it. With a format that is neither \<^verbatim>\<open>'json'\<close> nor \<^verbatim>\<open>'yaml'\<close>,
  \<^verbatim>\<open>save_to_file\<close> raises nothing and leaves the file empty, and \<^verbatim>\<open>load_from_file\<close>
  raises \<^verbatim>\<open>UnboundLocalError\<close> with store and phonebook as they were. When the parser of a
  supported format raises on the text, \<^verbatim>\<open>load_from_file\<close> raises the same, again with
  store and phonebook as they were. (\<^verbatim>\<open>save_to_file\<close> only reads the phonebook.)
\<close>

theorem unsupported_format:
  "(file_format \<noteq> ''json'' \<and> file_format \<noteq> ''yaml'' \<longrightarrow>
      save_to_file L st pb file_format = Inr [] \<and>
      load_from_file L file_text file_format s = (Some (UnboundLocalError ''data''), s)) \<and>
   (file_format = ''json'' \<and> json_load L file_text = Inl e \<longrightarrow>
      load_from_file L file_text file_format s = (Some e, s)) \<and>
   (file_format = ''yaml'' \<and> yaml_safe_load L file_text = Inl e \<longrightarrow>
      load_from_file L file_text file_format s = (Some e, s))"
  by (simp add: save_to_file_def load_from_file_def)

text \<open>
  The format \<^verbatim>\<open>'xml'\<close>, and a text neither loader of \<open>demo_codec\<close> accepts.
\<close>

theorem unsupported_format_witness:
  "save_to_file demo_codec twin_store \<lparr>contacts = [0, 1]\<rparr> ''xml'' = Inr [] \<and>
   load_from_file demo_codec ''json text'' ''xml'' (twin_store, \<lparr>contacts = [0, 1]\<rparr>) =
     (Some (UnboundLocalError ''data''), (twin_store, \<lparr>contacts = [0, 1]\<rparr>)) \<and>
   load_from_file demo_codec ''{'' ''json'' (twin_store, \<lparr>contacts = [0, 1]\<rparr>) =
     (Some DecodeError, (twin_store, \<lparr>contacts = [0, 1]\<rparr>)) \<and>
   load_from_file demo_codec ''{'' ''yaml'' (twin_store, \<lparr>contacts = [0, 1]\<rparr>) =
     (Some DecodeError, (twin_store, \<lparr>contacts = [0, 1]\<rparr>))"
  using unsupported_format [where file_format = "''xml''" and L = demo_codec
      and st = twin_store and pb = "\<lparr>contacts = [0, 1]\<rparr>" and file_text = "''json text''"
      and s = "(twin_store, \<lparr>contacts = [0, 1]\<rparr>)"]
    unsupported_format [where file_format = "''json''" and L = demo_codec and file_text = "''{''"
      and e = DecodeError and s = "(twin_store, \<lparr>contacts = [0, 1]\<rparr>)"]
    unsupported_format [where file_format = "''yaml''" and L = demo_codec and file_text = "''{''"
      and e = DecodeError and s = "(twin_store, \<lparr>contacts = [0, 1]\<rparr>)"]
  by (simp add: demo_codec_def)

text \<open>
  Claim C9 as the specification words it fails for saving: with the format \<^verbatim>\<open>'xml'\<close>
  \<^verbatim>\<open>save_to_file\<close> returns normally, having written nothing.
\<close>

theorem unsupported_format_save_counterexample:
  "save_to_file demo_codec twin_store \<lparr>contacts = [0, 1]\<rparr> ''xml'' = Inr [] \<and>
   \<not> isl (save_to_file demo_codec twin_store \<lparr>contacts = [0, 1]\<rparr> ''xml'')"
  by (simp add: save_to_file_def)



section \<open>Saving, then loading\<close>

lemma dict_set_fresh: "k \<notin> set (map fst d) \<Longrightarrow> dict_set d k v = d @ [(k, v)]"
  by (induction d) auto

lemma serialize_data_distinct_names:
  "distinct (map (\<lambda>r. full_name (objs st r)) cs) \<Longrightarrow>
   serialize_data st cs = map (\<lambda>r. (full_name (objs st r), person_dict (objs st r))) cs"
proof (induction cs rule: rev_induct)
  case Nil
  then show ?case by (simp add: serialize_data_Nil)
next
  case (snoc c cs)
  from snoc.prems have d: "distinct (map (\<lambda>r. full_name (objs st r)) cs)"
    and f: "full_name (objs st c) \<notin> (\<lambda>r. full_name (objs st r)) ` set cs"
    by simp_all
  have "full_name (objs st c) \<notin> set (map fst (serialize_data st cs))"
    unfolding serialize_data_keys by (rule f)
  then show ?case
    by (simp add: serialize_data_snoc dict_set_fresh snoc.IH [OF d])
qed

lemma fields_of_person_dict:
  "contact_fields (contact_of_record (person_dict p)) = contact_fields p"
  by (simp add: contact_fields_def contact_of_record_def person_dict_def dict_get_def
      Person_init_def)

lemma person_dict_named:
  "person_dict p ''first_name'' \<noteq> None \<and> person_dict p ''last_name'' \<noteq> None"
  by (simp add: person_dict_def)

text \<open>
  Claim C3, as the code has it. Let the contacts of a phonebook have pairwise distinct stored \<^verbatim>\<open>full_name\<close>s,
  let the format be one of the two supported ones, and let its library read back what it
  wrote as \<open>data'\<close>, a dictionary with the entries that were dumped, in some order. Then
  saving and loading the saved text into a new, empty phonebook raises nothing, and the
  loaded contacts have the same \<^verbatim>\<open>first_name\<close>, \<^verbatim>\<open>last_name\<close>, \<^verbatim>\<open>phone\<close> and \<^verbatim>\<open>address\<close> as
  the saved ones: as a multiset in general, and as a sequence, position by position, when
  the library keeps the order of the entries.
\<close>

theorem save_load_round_trip:
  assumes uniq: "distinct (map (\<lambda>r. full_name (objs st r)) (contacts pb))"
    and law: "file_format = ''json'' \<and>
        json_load L (json_dump L (serialize_data st (contacts pb))) = Inr data' \<or>
      file_format = ''yaml'' \<and>
        yaml_safe_load L (yaml_dump L (serialize_data st (contacts pb))) = Inr data'"
    and perm: "mset data' = mset (serialize_data st (contacts pb))"
  shows "\<exists>file_text st1 pb1.
      save_to_file L st pb file_format = Inr file_text \<and>
      load_from_file L file_text file_format (st0, Phonebook_init) = (None, (st1, pb1)) \<and>
      mset (map (\<lambda>r. contact_fields (objs st1 r)) (contacts pb1)) =
        mset (map (\<lambda>r. contact_fields (objs st r)) (contacts pb)) \<and>
      (data' = serialize_data st (contacts pb) \<longrightarrow>
         map (\<lambda>r. contact_fields (objs st1 r)) (contacts pb1) =
           map (\<lambda>r. contact_fields (objs st r)) (contacts pb))"
proof -
  let ?data = "serialize_data st (contacts pb)"
  let ?h = "\<lambda>e. contact_fields (contact_of_record (snd e))"
  let ?file = "if file_format = ''json'' then json_dump L ?data else yaml_dump L ?data"
  let ?news = "[next_ref st0 ..< next_ref st0 + length data']"
  have data: "?data = map (\<lambda>r. (full_name (objs st r), person_dict (objs st r))) (contacts pb)"
    by (rule serialize_data_distinct_names [OF uniq])
  have h_data: "map ?h ?data = map (\<lambda>r. contact_fields (objs st r)) (contacts pb)"
    unfolding data by (simp add: comp_def fields_of_person_dict)
  have saved: "save_to_file L st pb file_format = Inr ?file"
    using law by (auto simp: save_to_file_def)
  have parsed: "file_format = ''json'' \<and> json_load L ?file = Inr data' \<or>
      file_format = ''yaml'' \<and> yaml_safe_load L ?file = Inr data'"
    using law by auto
  have "set data' = set ?data"
    using perm by (rule mset_eq_setD)
  then have named: "\<forall>d\<in>set (map snd data'). d ''first_name'' \<noteq> None \<and> d ''last_name'' \<noteq> None"
    unfolding data by (auto simp: person_dict_def)
  have alloc: "\<forall>r\<in>set (contacts Phonebook_init). r < next_ref st0"
    by (simp add: Phonebook_init_def)
  from load_loop_appends [OF named, of st0 Phonebook_init] obtain st1 where st1:
    "load_loop (map snd data') (st0, Phonebook_init) =
       (None, (st1, Phonebook_init\<lparr>contacts := contacts Phonebook_init @
          [next_ref st0 ..< next_ref st0 + length (map snd data')]\<rparr>))"
    "\<forall>i<length (map snd data'). objs st1 (next_ref st0 + i) = contact_of_record (map snd data' ! i)"
    by blast
  let ?pb1 = "Phonebook_init\<lparr>contacts := contacts Phonebook_init @
          [next_ref st0 ..< next_ref st0 + length (map snd data')]\<rparr>"
  have loaded: "load_from_file L ?file file_format (st0, Phonebook_init) = (None, (st1, ?pb1))"
    using load_from_file_parsed [OF parsed] st1(1) by simp
  have "map (objs st1) [next_ref st0 ..< next_ref st0 + length (map snd data')] =
      map contact_of_record (map snd data')"
    by (rule map_objs_upt [OF st1(2)])
  then have "map contact_fields (map (objs st1) (contacts ?pb1)) =
      map contact_fields (map contact_of_record (map snd data'))"
    by (simp add: Phonebook_init_def)
  then have new: "map (\<lambda>r. contact_fields (objs st1 r)) (contacts ?pb1) = map ?h data'"
    by (simp add: comp_def)
  have "mset (map ?h data') = mset (map ?h ?data)"
    using perm by (simp only: mset_map)
  then have m: "mset (map (\<lambda>r. contact_fields (objs st1 r)) (contacts ?pb1)) =
      mset (map (\<lambda>r. contact_fields (objs st r)) (contacts pb))"
    by (simp only: new h_data)
  have s: "data' = ?data \<longrightarrow>
      map (\<lambda>r. contact_fields (objs st1 r)) (contacts ?pb1) =
        map (\<lambda>r. contact_fields (objs st r)) (contacts pb)"
    by (simp only: new) (simp add: h_data)
  from saved loaded m s show ?thesis
    by blast
qed

text \<open>
  Contacts 0 and 1 of \<open>zed_store\<close> through \<open>demo_codec\<close>: its JSON loader keeps the
  order, its YAML loader returns the entries sorted by key.
\<close>

lemma zed_distinct:
  "distinct (map (\<lambda>r. full_name (objs zed_store r)) (contacts \<lparr>contacts = [0, 1]\<rparr>))"
  by (simp add: zed_full_names)

theorem save_load_round_trip_witness:
  "(\<exists>file_text st1 pb1.
      save_to_file demo_codec zed_store \<lparr>contacts = [0, 1]\<rparr> ''json'' = Inr file_text \<and>
      load_from_file demo_codec file_text ''json'' (empty_store, Phonebook_init) =
        (None, (st1, pb1)) \<and>
      map (\<lambda>r. contact_fields (objs st1 r)) (contacts pb1) =
        map (\<lambda>r. contact_fields (objs zed_store r)) [0, 1]) \<and>
   (\<exists>file_text st1 pb1.
      save_to_file demo_codec zed_store \<lparr>contacts = [0, 1]\<rparr> ''yaml'' = Inr file_text \<and>
      load_from_file demo_codec file_text ''yaml'' (empty_store, Phonebook_init) =
        (None, (st1, pb1)) \<and>
      mset (map (\<lambda>r. contact_fields (objs st1 r)) (contacts pb1)) =
        mset (map (\<lambda>r. contact_fields (objs zed_store r)) [0, 1]))"
proof -
  let ?pb = "\<lparr>contacts = [0, 1]\<rparr>"
  have same: "sample_data = serialize_data zed_store (contacts ?pb)"
    by (simp add: sample_data_def)
  have law_json: "''json'' = ''json'' \<and>
        json_load demo_codec (json_dump demo_codec (serialize_data zed_store (contacts ?pb))) =
          Inr sample_data \<or>
      ''json'' = ''yaml'' \<and>
        yaml_safe_load demo_codec (yaml_dump demo_codec (serialize_data zed_store (contacts ?pb))) =
          Inr sample_data"
    by (simp add: demo_codec_def)
  have perm_json: "mset sample_data = mset (serialize_data zed_store (contacts ?pb))"
    by (simp only: same)
  have law_yaml: "''yaml'' = ''json'' \<and>
        json_load demo_codec (json_dump demo_codec (serialize_data zed_store (contacts ?pb))) =
          Inr (rev sample_data) \<or>
      ''yaml'' = ''yaml'' \<and>
        yaml_safe_load demo_codec (yaml_dump demo_codec (serialize_data zed_store (contacts ?pb))) =
          Inr (rev sample_data)"
    by (simp add: demo_codec_def)
  have perm_yaml: "mset (rev sample_data) = mset (serialize_data zed_store (contacts ?pb))"
    by (simp only: same mset_rev)
  from save_load_round_trip [OF zed_distinct law_json perm_json, of empty_store] same
  have j: "\<exists>file_text st1 pb1.
      save_to_file demo_codec zed_store ?pb ''json'' = Inr file_text \<and>
      load_from_file demo_codec file_text ''json'' (empty_store, Phonebook_init) =
        (None, (st1, pb1)) \<and>
      map (\<lambda>r. contact_fields (objs st1 r)) (contacts pb1) =
        map (\<lambda>r. contact_fields (objs zed_store r)) (contacts ?pb)"
    by blast
  from save_load_round_trip [OF zed_distinct law_yaml perm_yaml, of empty_store]
  have y: "\<exists>file_text st1 pb1.
      save_to_file demo_codec zed_store ?pb ''yaml'' = Inr file_text \<and>
      load_from_file demo_codec file_text ''yaml'' (empty_store, Phonebook_init) =
        (None, (st1, pb1)) \<and>
      mset (map (\<lambda>r. contact_fields (objs st1 r)) (contacts pb1)) =
        mset (map (\<lambda>r. contact_fields (objs zed_store r)) (contacts ?pb))"
    by blast
  have c: "contacts ?pb = [0, 1]"
    by simp
  from j y show ?thesis
    unfolding c by (rule conjI)
qed

lemma zed_dicts:
  "person_dict (objs zed_store 0) ''first_name'' = Some (PStr ''Zed'')"
  "person_dict (objs zed_store 0) ''last_name'' = Some (PStr ''Young'')"
  "person_dict (objs zed_store 0) ''phone'' = Some (PStr ''555-9999'')"
  "person_dict (objs zed_store 0) ''address'' = Some PNone"
  "person_dict (objs zed_store (Suc 0)) ''first_name'' = Some (PStr ''Amy'')"
  "person_dict (objs zed_store (Suc 0)) ''last_name'' = Some (PStr ''Adams'')"
  "person_dict (objs zed_store (Suc 0)) ''phone'' = Some PNone"
  "person_dict (objs zed_store (Suc 0)) ''address'' = Some (PStr ''2 Pine St'')"
  by (simp_all add: person_dict_def zed_store_def empty_store_def new_Person_def Person_init_def)

lemma yaml_reload:
  "load_from_file demo_codec ''yaml text'' ''yaml'' (empty_store, Phonebook_init) =
     (None, (amy_first_store, \<lparr>contacts = [0, 1]\<rparr>))"
  by (simp add: load_from_file_def demo_codec_def sample_data_eq from_dict_def zed_dicts
      dict_get_def new_Person_def amy_first_store_def empty_store_def Phonebook_init_def)

text \<open>
  Claim C3 as the specification words it fails for the order: contacts 0 and 1 of
  \<open>zed_store\<close> have distinct names, and saving them as YAML and loading the text into a
  new phonebook raises nothing, yet the first contact loaded is \<open>Amy Adams\<close> where the
  first contact saved is \<open>Zed Young\<close>.
\<close>

theorem round_trip_yaml_order_counterexample:
  "distinct [full_name (objs zed_store 0), full_name (objs zed_store 1)] \<and>
   save_to_file demo_codec zed_store \<lparr>contacts = [0, 1]\<rparr> ''yaml'' = Inr ''yaml text'' \<and>
   load_from_file demo_codec ''yaml text'' ''yaml'' (empty_store, Phonebook_init) =
     (None, (amy_first_store, \<lparr>contacts = [0, 1]\<rparr>)) \<and>
   contact_fields (objs zed_store 0) = (PStr ''Zed'', PStr ''Young'', PStr ''555-9999'', PNone) \<and>
   contact_fields (objs amy_first_store 0) =
     (PStr ''Amy'', PStr ''Adams'', PNone, PStr ''2 Pine St'')"
proof -
  have "distinct [full_name (objs zed_store 0), full_name (objs zed_store 1)]"
    by (simp add: zed_full_names)
  moreover have "save_to_file demo_codec zed_store \<lparr>contacts = [0, 1]\<rparr> ''yaml'' =
      Inr ''yaml text''"
    by (simp add: save_to_file_def demo_codec_def)
  moreover have "contact_fields (objs zed_store 0) =
      (PStr ''Zed'', PStr ''Young'', PStr ''555-9999'', PNone)"
    by (simp add: contact_fields_def zed_store_def empty_store_def new_Person_def Person_init_def)
  moreover have "contact_fields (objs amy_first_store 0) =
      (PStr ''Amy'', PStr ''Adams'', PNone, PStr ''2 Pine St'')"
    by (simp add: contact_fields_def amy_first_store_def empty_store_def new_Person_def
        Person_init_def)
  ultimately show ?thesis
    using yaml_reload by simp
qed

text \<open>
  Without the hypothesis on the names the loop stops part-way: the second record lacks
  \<^verbatim>\<open>last_name\<close>, and the contact made from the first one stays in the phonebook.
\<close>

lemma load_loop_stops_at_missing_key:
  "load_loop [john_record, nameless_record] (empty_store, Phonebook_init) =
     (Some (KeyError ''last_name''),
      (snd (new_Person empty_store (PStr ''John'') (PStr ''Doe'') PNone PNone),
       \<lparr>contacts = [0]\<rparr>))"
  by (simp add: from_dict_def john_record_def nameless_record_def dict_get_def new_Person_def
      empty_store_def Phonebook_init_def)

end
